theory Spec2Isabelle
  imports Main "HOL-Library.Product_Lexorder" "HOL-Library.Multiset"
begin

section \<open>NotesApp backend: data model\<close>

text \<open>
  The repository holds several iterations of one Express/Mongoose service. The embedding
  follows the handlers as they are written:
  \<^item> the JWT server (\<^verbatim>\<open>src/server.js\<close>, first document) with the routes
    \<^verbatim>\<open>/notes\<close>, \<^verbatim>\<open>/notes/:noteId\<close>, \<^verbatim>\<open>/notes/:noteId/pin\<close>,
    \<^verbatim>\<open>/notes/:noteId/archive\<close>; the session servers of \<^verbatim>\<open>part_001\<close> and
    \<^verbatim>\<open>part_002\<close> have the same note handlers, and \<^verbatim>\<open>part_001\<close> adds
    \<^verbatim>\<open>GET /notes/:noteId\<close>;
  \<^item> the older session server (\<^verbatim>\<open>src/server.js\<close>, second document) with the routes
    \<^verbatim>\<open>/notes/:userId/:noteId\<close>;
  \<^item> the first server (\<^verbatim>\<open>part_000\<close>) with its login and its update of embedded notes;
  \<^item> the two user schemas (\<^verbatim>\<open>src/models/User.js\<close> and the one in \<^verbatim>\<open>part_002\<close>).

  A collection is the list of its documents in insertion order. An ObjectId is a natural
  number, a time stamp an integer. A JavaScript string is a \<^typ>\<open>string\<close> whose
  characters are the code points 0..255. Request fields are typed: a string field is a
  string when present, a boolean field a boolean.
\<close>

type_synonym objectId = nat

record Note =
  note_id :: objectId
  title :: string
  content :: string
  color :: string
  category :: string
  isPinned :: bool
  isFavorite :: bool
  isArchived :: bool
  user :: objectId
  createdAt :: int
  updatedAt :: int

text \<open>
  The notes embedded in a user document by the schema of \<^verbatim>\<open>src/models/User.js\<close>
  (\<^verbatim>\<open>notes: [NoteSchema]\<close>); the schema of \<^verbatim>\<open>part_002\<close> has no such path, and
  the list stays empty there.
\<close>

record embeddedNote =
  e_id :: objectId
  e_title :: string
  e_content :: string
  e_color :: string

record User =
  user_id :: objectId
  name :: string
  email :: string
  password :: string
  embedded :: "embeddedNote list"

text \<open>
  A token of \<^verbatim>\<open>jwt.sign({ userId }, JWT_SECRET, { expiresIn: '7d' })\<close>: the payload
  (\<^verbatim>\<open>userId\<close>, \<^verbatim>\<open>iat\<close>, \<^verbatim>\<open>exp\<close>, in seconds) and the secret its signature
  was made with.
\<close>

record jwt =
  jwt_userId :: objectId
  jwt_iat :: int
  jwt_exp :: int
  jwt_signedWith :: string

text \<open>\<^verbatim>\<open>{ id: user._id, name: user.name, email: user.email }\<close>\<close>

record publicUser =
  pu_id :: objectId
  pu_name :: string
  pu_email :: string

text \<open>What a handler sends: the status and the JSON body.\<close>

datatype body =
    ErrorBody string
  | MessageBody string
  | MessageNoteBody string Note
  | NoteBody Note
  | NotesBody "Note list"
  | SuccessBody bool
  | AuthBody string jwt publicUser
  | UserNotesBody publicUser "embeddedNote list"

datatype response = Response nat body

subsection \<open>Strings\<close>

text \<open>
  \<^verbatim>\<open>String.prototype.trim\<close> removes white space and line terminators from both ends;
  among the code points 0..255 these are TAB, LF, VT, FF, CR, SPACE and NBSP.
  \<^verbatim>\<open>toLowerCase\<close> maps A..Z and the Latin-1 capitals (all of 192..222 but the
  multiplication sign 215) to the letter 32 places up.
\<close>

definition isWhiteSpace :: "char \<Rightarrow> bool" where
  "isWhiteSpace c = (of_char c \<in> {9, 10, 11, 12, 13, 32, 160 :: nat})"

definition trim :: "string \<Rightarrow> string" where
  "trim s = rev (dropWhile isWhiteSpace (rev (dropWhile isWhiteSpace s)))"

definition toLowerChar :: "char \<Rightarrow> char" where
  "toLowerChar c =
     (let n = of_char c :: nat
      in if (65 \<le> n \<and> n \<le> 90) \<or> (192 \<le> n \<and> n \<le> 222 \<and> n \<noteq> 215)
         then char_of (n + 32) else c)"

definition toLowerCase :: "string \<Rightarrow> string" where
  "toLowerCase s = map toLowerChar s"

subsection \<open>Mongoose queries on a collection\<close>

text \<open>\<^verbatim>\<open>Model.findOne(filter)\<close>: the first document that matches, or null.\<close>

definition findOne :: "('a \<Rightarrow> bool) \<Rightarrow> 'a list \<Rightarrow> 'a option" where
  "findOne q docs = find q docs"

text \<open>
  \<^verbatim>\<open>Model.deleteOne(filter)\<close>: removes the first document that matches; the result
  carries \<^verbatim>\<open>deletedCount\<close>.
\<close>

fun deleteOne :: "('a \<Rightarrow> bool) \<Rightarrow> 'a list \<Rightarrow> nat \<times> 'a list" where
  "deleteOne q [] = (0, [])"
| "deleteOne q (d # docs) =
     (if q d then (1, docs)
      else (fst (deleteOne q docs), d # snd (deleteOne q docs)))"

text \<open>
  \<^verbatim>\<open>Model.findOneAndUpdate(filter, update, { new: true })\<close>: changes the first document
  that matches and returns it as changed, or returns null and changes nothing.
\<close>

fun findOneAndUpdate :: "('a \<Rightarrow> bool) \<Rightarrow> ('a \<Rightarrow> 'a) \<Rightarrow> 'a list \<Rightarrow> 'a option \<times> 'a list" where
  "findOneAndUpdate q f [] = (None, [])"
| "findOneAndUpdate q f (d # docs) =
     (if q d then (Some (f d), f d # docs)
      else (fst (findOneAndUpdate q f docs), d # snd (findOneAndUpdate q f docs)))"

text \<open>
  \<^verbatim>\<open>doc.save()\<close> of a note loaded by \<^verbatim>\<open>findOne\<close>: the stored document with the same
  \<^verbatim>\<open>_id\<close> is replaced. With \<^verbatim>\<open>timestamps: true\<close> a changed document gets a new
  \<^verbatim>\<open>updatedAt\<close>; an unchanged one is not written.
\<close>

definition stamp :: "int \<Rightarrow> Note \<Rightarrow> Note \<Rightarrow> Note" where
  "stamp now stored doc = (if doc = stored then stored else doc\<lparr>updatedAt := now\<rparr>)"

fun save :: "int \<Rightarrow> Note \<Rightarrow> Note list \<Rightarrow> Note list" where
  "save now doc [] = []"
| "save now doc (d # docs) =
     (if note_id d = note_id doc then stamp now d doc # docs else d # save now doc docs)"

text \<open>
  A route parameter is a string; Mongoose casts it to an ObjectId and throws a CastError
  when it is not one. \<open>None\<close> is such a string, \<open>Some i\<close> the text of the ObjectId \<open>i\<close>.
\<close>

type_synonym idParam = "objectId option"

section \<open>The note handlers (behind requireAuth, which sets the caller's id)\<close>

subsection \<open>GET /notes\<close>

text \<open>
  \<^verbatim>\<open>const { search, category, isArchived = "false" } = req.query;\<close>
  \<^verbatim>\<open>let query = { user: req.userId, isArchived: isArchived === "true" };\<close>
  The regular expression engine of MongoDB is a parameter: \<open>regex_i p\<close> is \<open>None\<close> when
  the pattern \<open>p\<close> does not compile (the query then fails, and the handler answers 500),
  and otherwise the test whether a string matches \<open>p\<close> with option \<^verbatim>\<open>i\<close>. The
  category of the query goes through the schema's \<^verbatim>\<open>trim\<close> setter, as every value cast
  for the path does.
\<close>

record listQuery =
  q_search :: "string option"
  q_category :: "string option"
  q_isArchived :: "string option"

definition archivedFlag :: "listQuery \<Rightarrow> bool" where
  "archivedFlag rq = ((case q_isArchived rq of None \<Rightarrow> ''false'' | Some v \<Rightarrow> v) = ''true'')"

text \<open>A string is truthy when it is not empty.\<close>

definition truthy :: "string \<Rightarrow> bool" where
  "truthy s = (s \<noteq> [])"

text \<open>
  \<^verbatim>\<open>if (search) query.$or = [{ title: { $regex: search, $options: 'i' } },\<close>
  \<^verbatim>\<open>{ content: { $regex: search, $options: 'i' } }]\<close>: the condition on a note, when
  the pattern compiles.
\<close>

definition searchCondition :: "(string \<Rightarrow> (string \<Rightarrow> bool) option) \<Rightarrow> string option \<Rightarrow> (Note \<Rightarrow> bool) option" where
  "searchCondition regex_i search =
     (case search of
        None \<Rightarrow> Some (\<lambda>n. True)
      | Some p \<Rightarrow>
          if truthy p
          then (case regex_i p of
                  None \<Rightarrow> None
                | Some matches \<Rightarrow> Some (\<lambda>n. matches (title n) \<or> matches (content n)))
          else Some (\<lambda>n. True))"

definition notesQuery :: "(Note \<Rightarrow> bool) \<Rightarrow> objectId \<Rightarrow> listQuery \<Rightarrow> Note \<Rightarrow> bool" where
  "notesQuery searched userId rq n =
     (user n = userId \<and> isArchived n = archivedFlag rq \<and> searched n \<and>
      (case q_category rq of
         None \<Rightarrow> True
       | Some cat \<Rightarrow> if truthy cat then category n = trim cat else True))"

text \<open>\<^verbatim>\<open>.sort({ isPinned: -1, createdAt: -1 })\<close>: descending in both keys.\<close>

definition sortKey :: "Note \<Rightarrow> bool \<times> int" where
  "sortKey n = (\<not> isPinned n, - createdAt n)"

definition get_notes :: "(string \<Rightarrow> (string \<Rightarrow> bool) option) \<Rightarrow> objectId \<Rightarrow> listQuery \<Rightarrow> Note list \<Rightarrow> response" where
  "get_notes regex_i userId rq notes =
     (case searchCondition regex_i (q_search rq) of
        None \<Rightarrow> Response 500 (ErrorBody ''Failed to get notes'')
      | Some searched \<Rightarrow>
          Response 200 (NotesBody (sort_key sortKey (filter (notesQuery searched userId rq) notes))))"

text \<open>
  The session server with only two note routes (\<^verbatim>\<open>part_001\<close>, second document):
  \<^verbatim>\<open>Note.find({ user: req.session.userId }).sort({ createdAt: -1 })\<close>.
\<close>

definition get_notes_createdAt_only :: "objectId \<Rightarrow> Note list \<Rightarrow> response" where
  "get_notes_createdAt_only userId notes =
     Response 200 (NotesBody (sort_key (\<lambda>n. - createdAt n) (filter (\<lambda>n. user n = userId) notes)))"

subsection \<open>POST /notes\<close>

text \<open>
  \<^verbatim>\<open>const { title, content = "", color = "#ffffff", category = "General" } = req.body;\<close>
  \<^verbatim>\<open>Note.create\<close> runs the setters (\<^verbatim>\<open>trim\<close> on title, content and category), then
  the validators: a required string must be present and not empty. The new
  \<^verbatim>\<open>_id\<close> and the clock are parameters.
\<close>

record createBody =
  c_title :: "string option"
  c_content :: "string option"
  c_color :: "string option"
  c_category :: "string option"

definition orDefault :: "string option \<Rightarrow> string \<Rightarrow> string" where
  "orDefault v d = (case v of None \<Rightarrow> d | Some s \<Rightarrow> s)"

definition post_notes :: "objectId \<Rightarrow> int \<Rightarrow> objectId \<Rightarrow> createBody \<Rightarrow> Note list \<Rightarrow> response \<times> Note list" where
  "post_notes newId now userId b notes =
     (case c_title b of
        None \<Rightarrow> (Response 500 (ErrorBody ''Failed to create note''), notes)
      | Some t \<Rightarrow>
          if trim t = [] then (Response 500 (ErrorBody ''Failed to create note''), notes)
          else
            (let n = \<lparr> note_id = newId, title = trim t,
                       content = trim (orDefault (c_content b) []),
                       color = orDefault (c_color b) ''#ffffff'',
                       category = trim (orDefault (c_category b) ''General''),
                       isPinned = False, isFavorite = False, isArchived = False,
                       user = userId, createdAt = now, updatedAt = now \<rparr>
             in (Response 201 (MessageNoteBody ''Note created successfully'' n), notes @ [n])))"

subsection \<open>GET /notes/:noteId\<close>

definition owned :: "objectId \<Rightarrow> objectId \<Rightarrow> Note \<Rightarrow> bool" where
  "owned noteId userId n = (note_id n = noteId \<and> user n = userId)"

definition get_note :: "objectId \<Rightarrow> idParam \<Rightarrow> Note list \<Rightarrow> response" where
  "get_note userId noteId notes =
     (case noteId of
        None \<Rightarrow> Response 500 (ErrorBody ''Failed to get note'')
      | Some i \<Rightarrow>
          (case findOne (owned i userId) notes of
             None \<Rightarrow> Response 404 (ErrorBody ''Note not found'')
           | Some n \<Rightarrow> Response 200 (NoteBody n)))"

subsection \<open>PUT /notes/:noteId\<close>

text \<open>
  \<^verbatim>\<open>updateData\<close> gets a key for every field of the body that is not undefined; a true
  \<^verbatim>\<open>isArchived\<close> also writes \<^verbatim>\<open>isPinned = false\<close>, after the body's own
  \<^verbatim>\<open>isPinned\<close>. The update sets the keys (strings through the schema's setters) and,
  with \<^verbatim>\<open>timestamps: true\<close>, \<^verbatim>\<open>updatedAt\<close>. Update validators are off.
\<close>

record updateData =
  u_title :: "string option"
  u_content :: "string option"
  u_color :: "string option"
  u_category :: "string option"
  u_isPinned :: "bool option"
  u_isFavorite :: "bool option"
  u_isArchived :: "bool option"

definition buildUpdateData :: "updateData \<Rightarrow> updateData" where
  "buildUpdateData b =
     (let d0 = \<lparr> u_title = None, u_content = None, u_color = None, u_category = None,
                 u_isPinned = None, u_isFavorite = None, u_isArchived = None \<rparr>;
          d1 = (case u_title b of None \<Rightarrow> d0 | Some v \<Rightarrow> d0\<lparr>u_title := Some v\<rparr>);
          d2 = (case u_content b of None \<Rightarrow> d1 | Some v \<Rightarrow> d1\<lparr>u_content := Some v\<rparr>);
          d3 = (case u_color b of None \<Rightarrow> d2 | Some v \<Rightarrow> d2\<lparr>u_color := Some v\<rparr>);
          d4 = (case u_category b of None \<Rightarrow> d3 | Some v \<Rightarrow> d3\<lparr>u_category := Some v\<rparr>);
          d5 = (case u_isPinned b of None \<Rightarrow> d4 | Some v \<Rightarrow> d4\<lparr>u_isPinned := Some v\<rparr>);
          d6 = (case u_isFavorite b of None \<Rightarrow> d5 | Some v \<Rightarrow> d5\<lparr>u_isFavorite := Some v\<rparr>)
      in (case u_isArchived b of
            None \<Rightarrow> d6
          | Some v \<Rightarrow>
              (let d7 = d6\<lparr>u_isArchived := Some v\<rparr>
               in if v then d7\<lparr>u_isPinned := Some False\<rparr> else d7)))"

definition applyUpdate :: "int \<Rightarrow> updateData \<Rightarrow> Note \<Rightarrow> Note" where
  "applyUpdate now d n =
     n\<lparr> title := (case u_title d of None \<Rightarrow> title n | Some v \<Rightarrow> trim v),
        content := (case u_content d of None \<Rightarrow> content n | Some v \<Rightarrow> trim v),
        color := (case u_color d of None \<Rightarrow> color n | Some v \<Rightarrow> v),
        category := (case u_category d of None \<Rightarrow> category n | Some v \<Rightarrow> trim v),
        isPinned := (case u_isPinned d of None \<Rightarrow> isPinned n | Some v \<Rightarrow> v),
        isFavorite := (case u_isFavorite d of None \<Rightarrow> isFavorite n | Some v \<Rightarrow> v),
        isArchived := (case u_isArchived d of None \<Rightarrow> isArchived n | Some v \<Rightarrow> v),
        updatedAt := now \<rparr>"

definition put_note :: "int \<Rightarrow> objectId \<Rightarrow> idParam \<Rightarrow> updateData \<Rightarrow> Note list \<Rightarrow> response \<times> Note list" where
  "put_note now userId noteId b notes =
     (case noteId of
        None \<Rightarrow> (Response 500 (ErrorBody ''Failed to update note''), notes)
      | Some i \<Rightarrow>
          (case findOneAndUpdate (owned i userId) (applyUpdate now (buildUpdateData b)) notes of
             (None, _) \<Rightarrow> (Response 404 (ErrorBody ''Note not found''), notes)
           | (Some n, notes') \<Rightarrow> (Response 200 (MessageNoteBody ''Note updated successfully'' n), notes')))"

subsection \<open>DELETE /notes/:noteId\<close>

definition delete_note :: "objectId \<Rightarrow> idParam \<Rightarrow> Note list \<Rightarrow> response \<times> Note list" where
  "delete_note userId noteId notes =
     (case noteId of
        None \<Rightarrow> (Response 500 (ErrorBody ''Failed to delete note''), notes)
      | Some i \<Rightarrow>
          (case deleteOne (owned i userId) notes of
             (deletedCount, notes') \<Rightarrow>
               if deletedCount = 0 then (Response 404 (ErrorBody ''Note not found''), notes)
               else (Response 200 (MessageBody ''Note deleted successfully''), notes')))"

subsection \<open>PATCH /notes/:noteId/pin\<close>

definition pin_note :: "int \<Rightarrow> objectId \<Rightarrow> idParam \<Rightarrow> Note list \<Rightarrow> response \<times> Note list" where
  "pin_note now userId noteId notes =
     (case noteId of
        None \<Rightarrow> (Response 500 (ErrorBody ''Failed to pin note''), notes)
      | Some i \<Rightarrow>
          (case findOne (owned i userId) notes of
             None \<Rightarrow> (Response 404 (ErrorBody ''Note not found''), notes)
           | Some n \<Rightarrow>
               (let n' = stamp now n (n\<lparr>isPinned := \<not> isPinned n\<rparr>)
                in (Response 200
                      (MessageNoteBody
                         (if isPinned n' then ''Note pinned successfully''
                          else ''Note unpinned successfully'') n'),
                    save now (n\<lparr>isPinned := \<not> isPinned n\<rparr>) notes))))"

subsection \<open>PATCH /notes/:noteId/archive\<close>

text \<open>\<^verbatim>\<open>const { archive = true } = req.body;\<close>\<close>

definition archive_note :: "int \<Rightarrow> objectId \<Rightarrow> idParam \<Rightarrow> bool option \<Rightarrow> Note list \<Rightarrow> response \<times> Note list" where
  "archive_note now userId noteId archiveField notes =
     (case noteId of
        None \<Rightarrow> (Response 500 (ErrorBody ''Failed to archive note''), notes)
      | Some i \<Rightarrow>
          (case findOne (owned i userId) notes of
             None \<Rightarrow> (Response 404 (ErrorBody ''Note not found''), notes)
           | Some n \<Rightarrow>
               (let archive = (case archiveField of None \<Rightarrow> True | Some a \<Rightarrow> a);
                    n1 = n\<lparr>isArchived := archive\<rparr>;
                    n2 = (if archive then n1\<lparr>isPinned := False\<rparr> else n1);
                    n' = stamp now n n2
                in (Response 200
                      (MessageNoteBody
                         (if archive then ''Note archived successfully''
                          else ''Note unarchived successfully'') n'),
                    save now n2 notes))))"

section \<open>Authentication\<close>

subsection \<open>The user schemas\<close>

text \<open>
  A schema is its setters: \<^verbatim>\<open>src/models/User.js\<close> declares none
  (\<^verbatim>\<open>email: {type: String, required: true, unique: true}\<close>); the schema of
  \<^verbatim>\<open>part_002\<close> declares \<^verbatim>\<open>trim\<close> on the name and \<^verbatim>\<open>lowercase, trim\<close> on the
  email. Mongoose runs the setters of a path on every value cast for it: in a document
  that is created and in the filter of a query. The two setters of the email commute
  (lemma \<open>trim_toLowerCase\<close> below), so their order is immaterial.
\<close>

record userSchema =
  nameSetter :: "string \<Rightarrow> string"
  emailSetter :: "string \<Rightarrow> string"

definition UserSchema_models :: userSchema where
  "UserSchema_models = \<lparr> nameSetter = (\<lambda>s. s), emailSetter = (\<lambda>s. s) \<rparr>"

definition UserSchema_part_002 :: userSchema where
  "UserSchema_part_002 = \<lparr> nameSetter = trim, emailSetter = (\<lambda>s. trim (toLowerCase s)) \<rparr>"

text \<open>
  \<^verbatim>\<open>User.create\<close>: setters, then the validators (the three required strings must not be
  empty), then the insert, which the unique index on \<^verbatim>\<open>email\<close> refuses for a
  stored value that is already there. \<open>None\<close> is the error thrown.
\<close>

definition User_create :: "userSchema \<Rightarrow> objectId \<Rightarrow> string \<Rightarrow> string \<Rightarrow> string \<Rightarrow> User list \<Rightarrow> User option" where
  "User_create schema newId nm em pw users =
     (let n = nameSetter schema nm; e = emailSetter schema em
      in if n = [] \<or> e = [] \<or> pw = [] then None
         else if e \<in> set (map email users) then None
         else Some \<lparr> user_id = newId, name = n, email = e, password = pw, embedded = [] \<rparr>)"

definition toPublic :: "User \<Rightarrow> publicUser" where
  "toPublic u = \<lparr> pu_id = user_id u, pu_name = name u, pu_email = email u \<rparr>"

subsection \<open>Tokens (JWT server)\<close>

text \<open>
  \<^verbatim>\<open>jwt.sign\<close> and \<^verbatim>\<open>jwt.verify\<close> are the package jsonwebtoken, a dependency of
  the server, taken as the package documents them: \<^verbatim>\<open>sign\<close> with
  \<^verbatim>\<open>expiresIn: '7d'\<close> sets \<^verbatim>\<open>iat\<close> to the clock and \<^verbatim>\<open>exp\<close> to
  \<^verbatim>\<open>iat\<close> plus seven days; \<^verbatim>\<open>verify\<close> throws when the signature was not made
  with the secret and when the clock has reached \<^verbatim>\<open>exp\<close>, and returns the payload
  otherwise. \<open>None\<close> is the error thrown. The clock is in seconds. Section 4.3 of the
  specification says the same of \<^emph>\<open>issue\<close> and \<^emph>\<open>validate\<close>.
\<close>

definition jwt_sign_7d :: "objectId \<Rightarrow> string \<Rightarrow> int \<Rightarrow> jwt" where
  "jwt_sign_7d userId secret now =
     \<lparr> jwt_userId = userId, jwt_iat = now, jwt_exp = now + 7 * 24 * 60 * 60,
       jwt_signedWith = secret \<rparr>"

definition jwt_verify :: "jwt \<Rightarrow> string \<Rightarrow> int \<Rightarrow> objectId option" where
  "jwt_verify token secret now =
     (if jwt_signedWith token \<noteq> secret then None
      else if jwt_exp token \<le> now then None
      else Some (jwt_userId token))"

text \<open>\<^verbatim>\<open>const generateToken = (userId) => jwt.sign({ userId }, JWT_SECRET, { expiresIn: '7d' })\<close>\<close>

definition generateToken :: "string \<Rightarrow> int \<Rightarrow> objectId \<Rightarrow> jwt" where
  "generateToken JWT_SECRET now userId = jwt_sign_7d userId JWT_SECRET now"

text \<open>
  \<^verbatim>\<open>req.headers.authorization?.split(' ')[1]\<close>: no header or no second part, a second
  part that is not a token, or a token.
\<close>

datatype authorization = NoToken | NotAToken | Bearer jwt

datatype gate = Next objectId | Rejected response

definition requireAuth :: "string \<Rightarrow> int \<Rightarrow> authorization \<Rightarrow> gate" where
  "requireAuth JWT_SECRET now header =
     (case header of
        NoToken \<Rightarrow> Rejected (Response 401 (ErrorBody ''Authentication required''))
      | NotAToken \<Rightarrow> Rejected (Response 401 (ErrorBody ''Invalid or expired token''))
      | Bearer token \<Rightarrow>
          (case jwt_verify token JWT_SECRET now of
             None \<Rightarrow> Rejected (Response 401 (ErrorBody ''Invalid or expired token''))
           | Some userId \<Rightarrow> Next userId))"

text \<open>
  \<^verbatim>\<open>// Logout (frontend handles this by removing token)\<close>: the handler answers and
  touches nothing; \<open>db\<close> is whatever the server holds.
\<close>

definition post_auth_logout :: "'db \<Rightarrow> response \<times> 'db" where
  "post_auth_logout db = (Response 200 (MessageBody ''Logged out successfully''), db)"

subsection \<open>Sessions (session servers of part_001)\<close>

text \<open>
  The session servers keep \<^verbatim>\<open>req.session.userId\<close> in the store of express-session,
  under the session id of the cookie. The store is a map from session ids to the user id
  saved at login; \<^verbatim>\<open>req.session.destroy\<close> removes the entry of the request's session.
  The expiry of a stored session is inside express-session and connect-mongo and is not
  part of this model.
  \<^verbatim>\<open>if (!req.session.userId) return res.status(401).json({ error: "Please log in" });\<close>
\<close>

type_synonym sessionStore = "string \<rightharpoonup> objectId"

definition requireAuth_session :: "sessionStore \<Rightarrow> string \<Rightarrow> gate" where
  "requireAuth_session store sid =
     (case store sid of
        None \<Rightarrow> Rejected (Response 401 (ErrorBody ''Please log in''))
      | Some userId \<Rightarrow> Next userId)"

definition post_auth_logout_session :: "sessionStore \<Rightarrow> string \<Rightarrow> response \<times> sessionStore" where
  "post_auth_logout_session store sid =
     (Response 200 (MessageBody ''Logged out successfully''), store(sid := None))"

subsection \<open>POST /auth/signup and POST /auth/login (JWT server)\<close>

text \<open>
  \<^verbatim>\<open>bcrypt.hash\<close> and \<^verbatim>\<open>bcrypt.compare\<close> are parameters, as are the new \<^verbatim>\<open>_id\<close>,
  the secret and the clock.
\<close>

record credentials =
  b_name :: string
  b_email :: string
  b_password :: string

definition post_auth_signup ::
  "userSchema \<Rightarrow> (string \<Rightarrow> string) \<Rightarrow> string \<Rightarrow> int \<Rightarrow> objectId \<Rightarrow> credentials \<Rightarrow> User list
     \<Rightarrow> response \<times> User list" where
  "post_auth_signup schema bcrypt_hash JWT_SECRET now newId b users =
     (case findOne (\<lambda>u. email u = emailSetter schema (b_email b)) users of
        Some existingUser \<Rightarrow> (Response 400 (ErrorBody ''User already exists''), users)
      | None \<Rightarrow>
          (case User_create schema newId (b_name b) (b_email b) (bcrypt_hash (b_password b)) users of
             None \<Rightarrow> (Response 500 (ErrorBody ''Signup failed''), users)
           | Some u \<Rightarrow>
               (Response 201
                  (AuthBody ''User created successfully''
                     (generateToken JWT_SECRET now (user_id u)) (toPublic u)),
                users @ [u])))"

definition post_auth_login ::
  "userSchema \<Rightarrow> (string \<Rightarrow> string \<Rightarrow> bool) \<Rightarrow> string \<Rightarrow> int \<Rightarrow> credentials \<Rightarrow> User list \<Rightarrow> response" where
  "post_auth_login schema bcrypt_compare JWT_SECRET now b users =
     (case findOne (\<lambda>u. email u = emailSetter schema (b_email b)) users of
        None \<Rightarrow> Response 401 (ErrorBody ''Invalid email or password'')
      | Some u \<Rightarrow>
          if \<not> bcrypt_compare (b_password b) (password u)
          then Response 401 (ErrorBody ''Invalid email or password'')
          else Response 200
                 (AuthBody ''Login successful'' (generateToken JWT_SECRET now (user_id u))
                    (toPublic u)))"

section \<open>The older servers\<close>

subsection \<open>POST /auth/login of the first server (part_000)\<close>

text \<open>
  \<^verbatim>\<open>if (!user) return res.status(409).json({ message: "User doesn't exist" });\<close>
  \<^verbatim>\<open>if (!isMatch) return res.status(401).json({ message: "Invalid email or password" });\<close>
\<close>

definition post_auth_login_part_000 ::
  "(string \<Rightarrow> string \<Rightarrow> bool) \<Rightarrow> credentials \<Rightarrow> User list \<Rightarrow> response" where
  "post_auth_login_part_000 bcrypt_compare b users =
     (case findOne (\<lambda>u. email u = b_email b) users of
        None \<Rightarrow> Response 409 (MessageBody (''User doesn'' @ [CHR 0x27] @ ''t exist''))
      | Some u \<Rightarrow>
          if \<not> bcrypt_compare (b_password b) (password u)
          then Response 401 (MessageBody ''Invalid email or password'')
          else Response 200 (UserNotesBody (toPublic u) (embedded u)))"

subsection \<open>DELETE /notes/:userId/:noteId of the older session server\<close>

text \<open>
  \<^verbatim>\<open>if (req.session.userId !== userId) return res.status(403).json({ error: "Forbidden" });\<close>
  \<^verbatim>\<open>await Note.deleteOne({ _id: noteId }); res.json({ success: true });\<close>
  The error caught is the CastError of a \<^verbatim>\<open>noteId\<close> that is no ObjectId.
\<close>

definition delete_note_by_userId :: "objectId \<Rightarrow> objectId \<Rightarrow> idParam \<Rightarrow> Note list \<Rightarrow> response \<times> Note list" where
  "delete_note_by_userId sessionUserId userId noteId notes =
     (if sessionUserId \<noteq> userId then (Response 403 (ErrorBody ''Forbidden''), notes)
      else
        (case noteId of
           None \<Rightarrow> (Response 400 (ErrorBody ''Could not delete note''), notes)
         | Some i \<Rightarrow> (Response 200 (SuccessBody True), snd (deleteOne (\<lambda>n. note_id n = i) notes))))"

subsection \<open>PUT /notes/:userId/:noteId of the first server (part_000)\<close>

text \<open>
  \<^verbatim>\<open>note.title = title || note.title; note.content = content || note.content;\<close>
  \<^verbatim>\<open>note.color = color || note.color;\<close> on the embedded note: a field that is undefined
  or the empty string keeps the prior value.
\<close>

definition orPrior :: "string option \<Rightarrow> string \<Rightarrow> string" where
  "orPrior v prior = (case v of None \<Rightarrow> prior | Some s \<Rightarrow> if truthy s then s else prior)"

definition mergeEmbedded :: "string option \<Rightarrow> string option \<Rightarrow> string option \<Rightarrow> embeddedNote \<Rightarrow> embeddedNote" where
  "mergeEmbedded newTitle newContent newColor n =
     n\<lparr> e_title := orPrior newTitle (e_title n),
        e_content := orPrior newContent (e_content n),
        e_color := orPrior newColor (e_color n) \<rparr>"

section \<open>Documents and requests used in the examples\<close>

text \<open>A note as \<^verbatim>\<open>POST /notes\<close> stores it for the title T, with the given flags.\<close>

definition aNote :: "objectId \<Rightarrow> objectId \<Rightarrow> bool \<Rightarrow> bool \<Rightarrow> int \<Rightarrow> Note" where
  "aNote i owner pinned archived created =
     \<lparr> note_id = i, title = ''T'', content = [], color = ''#ffffff'', category = ''General'',
       isPinned = pinned, isFavorite = False, isArchived = archived, user = owner,
       createdAt = created, updatedAt = created \<rparr>"

definition aUser :: "objectId \<Rightarrow> string \<Rightarrow> string \<Rightarrow> User" where
  "aUser i em pw = \<lparr> user_id = i, name = ''A'', email = em, password = pw, embedded = [] \<rparr>"

text \<open>The body \<^verbatim>\<open>{}\<close> of a PUT.\<close>

definition noFields :: updateData where
  "noFields = \<lparr> u_title = None, u_content = None, u_color = None, u_category = None,
       u_isPinned = None, u_isFavorite = None, u_isArchived = None \<rparr>"

text \<open>The invariant of the specification: a note is not both archived and pinned.\<close>

definition archivedNotPinned :: "Note \<Rightarrow> bool" where
  "archivedNotPinned n = (\<not> (isArchived n \<and> isPinned n))"

section \<open>Queries: what a filter that matches nothing, or something, does\<close>

lemma findOneAndUpdate_no_match:
  "find q docs = None \<Longrightarrow> findOneAndUpdate q f docs = (None, docs)"
  by (induction docs) (auto split: if_splits)

lemma findOneAndUpdate_match:
  "find q docs = Some d \<Longrightarrow>
     \<exists>pre post. docs = pre @ d # post \<and> findOneAndUpdate q f docs = (Some (f d), pre @ f d # post)"
proof (induction docs)
  case Nil
  then show ?case by simp
next
  case (Cons x docs)
  show ?case
  proof (cases "q x")
    case True
    with Cons.prems have "x = d" by simp
    with True have "x # docs = [] @ d # docs
        \<and> findOneAndUpdate q f (x # docs) = (Some (f d), [] @ f d # docs)"
      by simp
    then show ?thesis by blast
  next
    case False
    with Cons obtain pre post where "docs = pre @ d # post"
      "findOneAndUpdate q f docs = (Some (f d), pre @ f d # post)" by auto
    with False have "x # docs = (x # pre) @ d # post
        \<and> findOneAndUpdate q f (x # docs) = (Some (f d), (x # pre) @ f d # post)" by simp
    then show ?thesis by blast
  qed
qed

lemma deleteOne_no_match: "find q docs = None \<Longrightarrow> deleteOne q docs = (0, docs)"
  by (induction docs) (auto split: if_splits)

lemma deleteOne_match: "find q docs = Some d \<Longrightarrow> fst (deleteOne q docs) = 1"
  by (induction docs) (auto split: if_splits)

lemma deleteOne_removes_id:
  "distinct (map note_id ns) \<Longrightarrow> find (owned i userId) ns = Some n
     \<Longrightarrow> find (owned i userId) (snd (deleteOne (owned i userId) ns)) = None"
proof (induction ns)
  case Nil
  then show ?case by simp
next
  case (Cons m ns)
  show ?case
  proof (cases "owned i userId m")
    case True
    with Cons.prems(1) have "\<forall>k \<in> set ns. note_id k \<noteq> i"
      by (force simp: owned_def)
    with True show ?thesis by (auto simp: find_None_iff owned_def)
  next
    case False
    with Cons show ?thesis by simp
  qed
qed

lemma find_append_last: "find P xs = None \<Longrightarrow> P x \<Longrightarrow> find P (xs @ [x]) = Some x"
  by (induction xs) (auto split: if_splits)

lemma findOne_absent_id:
  "i \<notin> set (map note_id ns) \<Longrightarrow> findOne (owned i userId) ns = None"
  by (auto simp: findOne_def find_None_iff owned_def)

lemma findOne_owned_other:
  assumes "distinct (map note_id ns)" and "n \<in> set ns" and "user n \<noteq> userId"
  shows "findOne (owned (note_id n) userId) ns = None"
proof -
  have "\<not> owned (note_id n) userId m" if "m \<in> set ns" for m
  proof
    assume o: "owned (note_id n) userId m"
    then have "note_id m = note_id n" by (simp add: owned_def)
    with assms(1,2) that have "m = n" by (meson distinct_map inj_onD)
    with o assms(3) show False by (simp add: owned_def)
  qed
  then show ?thesis by (simp add: findOne_def find_None_iff)
qed

lemma stamp_flags:
  "isPinned (stamp now stored doc) = isPinned doc"
  "isArchived (stamp now stored doc) = isArchived doc"
  by (simp_all add: stamp_def)

section \<open>Ownership: a note of another user and a note that does not exist\<close>

lemma not_found_responses:
  assumes "findOne (owned i userId) ns = None"
  shows "get_note userId (Some i) ns = Response 404 (ErrorBody ''Note not found'')"
    and "put_note now userId (Some i) b ns = (Response 404 (ErrorBody ''Note not found''), ns)"
    and "delete_note userId (Some i) ns = (Response 404 (ErrorBody ''Note not found''), ns)"
    and "pin_note now userId (Some i) ns = (Response 404 (ErrorBody ''Note not found''), ns)"
    and "archive_note now userId (Some i) a ns = (Response 404 (ErrorBody ''Note not found''), ns)"
  using assms
  by (simp_all add: get_note_def put_note_def delete_note_def pin_note_def archive_note_def
      findOne_def findOneAndUpdate_no_match deleteOne_no_match)

text \<open>
  The handlers on \<^verbatim>\<open>/notes/:noteId\<close> filter by \<^verbatim>\<open>{ _id: noteId, user: userId }\<close>: for
  the id of a note of another user each of them answers 404 "Note not found" and leaves
  the collection as it is, exactly as for an id that is not in the collection.
\<close>

lemma scoped_handlers_hide_foreign_notes:
  assumes "distinct (map note_id ns)" and "n \<in> set ns" and "user n \<noteq> userId"
      and "absent \<notin> set (map note_id ns)"
  shows "get_note userId (Some (note_id n)) ns = Response 404 (ErrorBody ''Note not found'')
       \<and> get_note userId (Some absent) ns = Response 404 (ErrorBody ''Note not found'')"
    and "put_note now userId (Some (note_id n)) b ns = (Response 404 (ErrorBody ''Note not found''), ns)
       \<and> put_note now userId (Some absent) b ns = (Response 404 (ErrorBody ''Note not found''), ns)"
    and "delete_note userId (Some (note_id n)) ns = (Response 404 (ErrorBody ''Note not found''), ns)
       \<and> delete_note userId (Some absent) ns = (Response 404 (ErrorBody ''Note not found''), ns)"
    and "pin_note now userId (Some (note_id n)) ns = (Response 404 (ErrorBody ''Note not found''), ns)
       \<and> pin_note now userId (Some absent) ns = (Response 404 (ErrorBody ''Note not found''), ns)"
    and "archive_note now userId (Some (note_id n)) a ns = (Response 404 (ErrorBody ''Note not found''), ns)
       \<and> archive_note now userId (Some absent) a ns = (Response 404 (ErrorBody ''Note not found''), ns)"
  using findOne_owned_other[OF assms(1-3)] findOne_absent_id[OF assms(4), of userId]
  by (simp_all add: not_found_responses)

text \<open>
  C1, on \<^verbatim>\<open>DELETE /notes/:userId/:noteId\<close> of the older session server. The claim: an
  operation on a note of user A with the scope of another user B answers NotFound, as for
  an id that does not exist. Here user 2, logged in and naming itself in the route,
  deletes note 10 of user 1: the filter is \<^verbatim>\<open>{ _id: noteId }\<close> alone, the note is
  removed and the answer is \<^verbatim>\<open>{ success: true }\<close>.
\<close>

theorem delete_by_userId_removes_foreign_note:
  "delete_note_by_userId 2 2 (Some 10) [aNote 10 1 False False 0]
     = (Response 200 (SuccessBody True), [])"
  by (simp add: delete_note_by_userId_def aNote_def)

section \<open>Deleting twice\<close>

text \<open>
  \<^verbatim>\<open>DELETE /notes/:noteId\<close> checks \<^verbatim>\<open>deletedCount\<close>: the first delete of an owned
  note succeeds, the second answers 404.
\<close>

lemma delete_note_twice:
  assumes "distinct (map note_id ns)" and "findOne (owned i userId) ns = Some n"
  shows "\<exists>ns'. delete_note userId (Some i) ns
                   = (Response 200 (MessageBody ''Note deleted successfully''), ns')
           \<and> delete_note userId (Some i) ns' = (Response 404 (ErrorBody ''Note not found''), ns')"
proof -
  let ?r = "deleteOne (owned i userId) ns"
  from assms(2) have c: "fst ?r = 1" by (simp add: findOne_def deleteOne_match)
  from assms have "findOne (owned i userId) (snd ?r) = None"
    by (simp add: findOne_def deleteOne_removes_id)
  then have "delete_note userId (Some i) (snd ?r)
      = (Response 404 (ErrorBody ''Note not found''), snd ?r)"
    by (rule not_found_responses)
  moreover from c have "delete_note userId (Some i) ns
      = (Response 200 (MessageBody ''Note deleted successfully''), snd ?r)"
    by (cases ?r) (simp add: delete_note_def)
  ultimately show ?thesis by blast
qed

text \<open>
  C9, on \<^verbatim>\<open>DELETE /notes/:userId/:noteId\<close> of the older session server. The claim: the
  second of two deletes of the same id answers NotFound, and so does the delete of an id
  that never existed. The handler does not read the result of \<^verbatim>\<open>deleteOne\<close>: the
  first delete, the second and the delete of the unknown id 11 all answer
  \<^verbatim>\<open>{ success: true }\<close>.
\<close>

theorem delete_by_userId_twice_succeeds:
  "delete_note_by_userId 1 1 (Some 10) [aNote 10 1 False False 0]
     = (Response 200 (SuccessBody True), [])
   \<and> delete_note_by_userId 1 1 (Some 10) [] = (Response 200 (SuccessBody True), [])
   \<and> delete_note_by_userId 1 1 (Some 11) [aNote 10 1 False False 0]
     = (Response 200 (SuccessBody True), [aNote 10 1 False False 0])"
  by (simp add: delete_note_by_userId_def aNote_def)

section \<open>Login failures\<close>

text \<open>
  The login of the JWT server (and of the session servers of \<^verbatim>\<open>part_001\<close> and
  \<^verbatim>\<open>part_002\<close>) gives one answer to an unknown email and to a wrong password.
\<close>

lemma login_failure_uniform:
  "findOne (\<lambda>u. email u = emailSetter schema (b_email b)) users = None
     \<or> (\<exists>u. findOne (\<lambda>u. email u = emailSetter schema (b_email b)) users = Some u
             \<and> \<not> bcrypt_compare (b_password b) (password u))
   \<Longrightarrow> post_auth_login schema bcrypt_compare JWT_SECRET now b users
        = Response 401 (ErrorBody ''Invalid email or password'')"
  by (auto simp: post_auth_login_def)

text \<open>
  C3, on the login of the first server (\<^verbatim>\<open>part_000\<close>). The claim: login gives the same
  failure whether the email is not registered or the password does not match. With
  a@x.com registered under the password p1, the login of b@x.com answers 409 "User
  doesn't exist" and the login of a@x.com with p2 answers 401 "Invalid email or
  password": the caller learns which emails are registered.
\<close>

theorem login_part_000_tells_unknown_email_from_wrong_password:
  "post_auth_login_part_000 (\<lambda>pw h. h = ''$2b$10$'' @ pw)
       \<lparr> b_name = [], b_email = ''b@x.com'', b_password = ''p1'' \<rparr>
       [aUser 1 ''a@x.com'' ''$2b$10$p1'']
     = Response 409 (MessageBody (''User doesn'' @ [CHR 0x27] @ ''t exist''))
   \<and> post_auth_login_part_000 (\<lambda>pw h. h = ''$2b$10$'' @ pw)
       \<lparr> b_name = [], b_email = ''a@x.com'', b_password = ''p2'' \<rparr>
       [aUser 1 ''a@x.com'' ''$2b$10$p1'']
     = Response 401 (MessageBody ''Invalid email or password'')"
  by (simp add: post_auth_login_part_000_def findOne_def aUser_def)

section \<open>Registering an email twice\<close>

text \<open>
  Lowercasing and trimming commute, so the order in which Mongoose runs the two setters
  of the email does not matter.
\<close>

lemma isWhiteSpace_toLowerChar: "isWhiteSpace (toLowerChar c) = isWhiteSpace c"
proof -
  have "(of_char c :: nat) < 256" by simp
  then show ?thesis
    by (auto simp: isWhiteSpace_def toLowerChar_def Let_def)
qed

lemma dropWhile_toLowerCase:
  "dropWhile isWhiteSpace (map toLowerChar s) = map toLowerChar (dropWhile isWhiteSpace s)"
  by (induction s) (simp_all add: isWhiteSpace_toLowerChar)

lemma trim_toLowerCase: "trim (toLowerCase s) = toLowerCase (trim s)"
  by (simp add: trim_def toLowerCase_def dropWhile_toLowerCase rev_map)

lemma signup_created:
  assumes "post_auth_signup schema h k t i b users = (Response 201 bd, users')"
  shows "find (\<lambda>u. email u = emailSetter schema (b_email b)) users = None"
    and "\<exists>u. User_create schema i (b_name b) (b_email b) (h (b_password b)) users = Some u
             \<and> users' = users @ [u]"
proof -
  let ?f = "find (\<lambda>u. email u = emailSetter schema (b_email b)) users"
  let ?c = "User_create schema i (b_name b) (b_email b) (h (b_password b)) users"
  show none: "?f = None"
  proof (cases ?f)
    case (Some v)
    with assms show ?thesis by (simp add: post_auth_signup_def findOne_def)
  qed simp
  show "\<exists>u. ?c = Some u \<and> users' = users @ [u]"
  proof (cases ?c)
    case None
    with assms none show ?thesis by (simp add: post_auth_signup_def findOne_def)
  next
    case (Some u)
    with assms none show ?thesis by (simp add: post_auth_signup_def findOne_def)
  qed
qed

lemma User_create_email:
  "User_create schema i nm em pw users = Some u \<Longrightarrow> email u = emailSetter schema em"
  by (auto simp: User_create_def Let_def split: if_splits)

text \<open>
  After a signup that succeeded, a signup whose email the schema's setter maps to the
  same value answers 400 "User already exists" and stores nothing; one document holds
  that value.
\<close>

lemma signup_same_stored_email_refused:
  assumes first: "post_auth_signup schema h k t i b users = (Response 201 bd, users')"
      and same: "emailSetter schema (b_email b2) = emailSetter schema (b_email b)"
  shows "post_auth_signup schema h2 k2 t2 i2 b2 users'
           = (Response 400 (ErrorBody ''User already exists''), users')"
    and "length (filter (\<lambda>u. email u = emailSetter schema (b_email b)) users') = 1"
proof -
  let ?e = "emailSetter schema (b_email b)"
  from signup_created[OF first] obtain u
    where none: "find (\<lambda>u. email u = ?e) users = None"
      and u: "User_create schema i (b_name b) (b_email b) (h (b_password b)) users = Some u"
      and users': "users' = users @ [u]"
    by blast
  from u have eu: "email u = ?e" by (rule User_create_email)
  from none have "filter (\<lambda>u. email u = ?e) users = []"
    by (simp add: find_None_iff filter_empty_conv)
  with eu users' show "length (filter (\<lambda>u. email u = ?e) users') = 1" by simp
  from none eu have "find (\<lambda>u. email u = ?e) (users @ [u]) = Some u"
    by (rule find_append_last)
  with same users' show "post_auth_signup schema h2 k2 t2 i2 b2 users'
           = (Response 400 (ErrorBody ''User already exists''), users')"
    by (simp add: post_auth_signup_def findOne_def)
qed

text \<open>With the schema of \<^verbatim>\<open>part_002\<close> that value is the trimmed, lowercased email.\<close>

lemma signup_part_002_normalized_email_refused:
  assumes "post_auth_signup UserSchema_part_002 h k t i b users = (Response 201 bd, users')"
      and "trim (toLowerCase (b_email b2)) = trim (toLowerCase (b_email b))"
  shows "post_auth_signup UserSchema_part_002 h2 k2 t2 i2 b2 users'
           = (Response 400 (ErrorBody ''User already exists''), users')"
    and "length (filter (\<lambda>u. email u = trim (toLowerCase (b_email b))) users') = 1"
proof -
  from assms(2) have same:
    "emailSetter UserSchema_part_002 (b_email b2) = emailSetter UserSchema_part_002 (b_email b)"
    by (simp add: UserSchema_part_002_def)
  show "post_auth_signup UserSchema_part_002 h2 k2 t2 i2 b2 users'
           = (Response 400 (ErrorBody ''User already exists''), users')"
    by (rule signup_same_stored_email_refused(1)[OF assms(1) same])
  show "length (filter (\<lambda>u. email u = trim (toLowerCase (b_email b))) users') = 1"
    using signup_same_stored_email_refused(2)[OF assms(1) same]
    by (simp add: UserSchema_part_002_def)
qed

text \<open>
  C4, on the signup with the schema of \<^verbatim>\<open>src/models/User.js\<close>. The claim: a second
  registration whose email is the first one after trimming and lowercasing fails with
  AlreadyExists, and one record exists for the normalized email. That schema has no
  setter: after a@x.com, the signup of "A@X.com " (capitals, a space at the end) finds no
  user, passes the unique index and answers 201; two users are stored whose emails are
  a@x.com after normalization.
\<close>

theorem signup_models_schema_registers_case_variant:
  "post_auth_signup UserSchema_models (\<lambda>pw. ''$2b$10$'' @ pw) ''k'' 0 1
       \<lparr> b_name = ''A'', b_email = ''a@x.com'', b_password = ''p1'' \<rparr> []
     = (Response 201 (AuthBody ''User created successfully'' (generateToken ''k'' 0 1)
          \<lparr> pu_id = 1, pu_name = ''A'', pu_email = ''a@x.com'' \<rparr>),
        [aUser 1 ''a@x.com'' ''$2b$10$p1''])
   \<and> post_auth_signup UserSchema_models (\<lambda>pw. ''$2b$10$'' @ pw) ''k'' 0 2
       \<lparr> b_name = ''A'', b_email = ''A@X.com '', b_password = ''p1'' \<rparr>
       [aUser 1 ''a@x.com'' ''$2b$10$p1'']
     = (Response 201 (AuthBody ''User created successfully'' (generateToken ''k'' 0 2)
          \<lparr> pu_id = 2, pu_name = ''A'', pu_email = ''A@X.com '' \<rparr>),
        [aUser 1 ''a@x.com'' ''$2b$10$p1'', aUser 2 ''A@X.com '' ''$2b$10$p1''])
   \<and> map (\<lambda>u. trim (toLowerCase (email u)))
        [aUser 1 ''a@x.com'' ''$2b$10$p1'', aUser 2 ''A@X.com '' ''$2b$10$p1'']
     = [''a@x.com'', ''a@x.com'']"
  apply (simp add: post_auth_signup_def UserSchema_models_def findOne_def User_create_def
      aUser_def toPublic_def)
  apply code_simp
  done

section \<open>Archived and pinned\<close>

text \<open>
  The archive handler never leaves a note both archived and pinned
  (\<^verbatim>\<open>if (archive) note.isPinned = false; // Can't pin archived notes\<close>), and neither
  does a PUT whose body has \<^verbatim>\<open>isArchived\<close>.
\<close>

lemma archive_note_not_both:
  assumes "archive_note now userId noteId a ns = (Response 200 (MessageNoteBody msg n'), ns')"
  shows "archivedNotPinned n'"
proof -
  from assms obtain i n where "noteId = Some i" "findOne (owned i userId) ns = Some n"
    by (auto simp: archive_note_def split: option.splits)
  with assms have "n' = stamp now n (if (case a of None \<Rightarrow> True | Some v \<Rightarrow> v)
        then n\<lparr>isArchived := True, isPinned := False\<rparr> else n\<lparr>isArchived := False\<rparr>)"
    by (auto simp: archive_note_def Let_def split: if_splits)
  then show ?thesis by (simp add: archivedNotPinned_def stamp_flags split: if_splits)
qed

lemma post_notes_not_both:
  "post_notes newId now userId b ns = (Response 201 (MessageNoteBody msg n'), ns')
     \<Longrightarrow> archivedNotPinned n'"
  by (auto simp: post_notes_def archivedNotPinned_def Let_def split: option.splits if_splits)

text \<open>
  C5, on \<^verbatim>\<open>PATCH /notes/:noteId/pin\<close> and \<^verbatim>\<open>PUT /notes/:noteId\<close>. The claim: after
  every mutating operation an archived note is not pinned. Note 10 is archived and not
  pinned; the pin handler flips \<^verbatim>\<open>isPinned\<close> without reading \<^verbatim>\<open>isArchived\<close>, and a
  PUT with the body \<^verbatim>\<open>{ isPinned: true }\<close> sets it: after either, the stored note is
  archived and pinned.
\<close>

theorem pin_and_put_break_archived_not_pinned:
  "list_all archivedNotPinned [aNote 10 1 False True 0]
   \<and> snd (pin_note 5 1 (Some 10) [aNote 10 1 False True 0])
       = [(aNote 10 1 True True 0)\<lparr>updatedAt := 5\<rparr>]
   \<and> snd (put_note 5 1 (Some 10) (noFields\<lparr>u_isPinned := Some True\<rparr>) [aNote 10 1 False True 0])
       = [(aNote 10 1 True True 0)\<lparr>updatedAt := 5\<rparr>]
   \<and> \<not> list_all archivedNotPinned [(aNote 10 1 True True 0)\<lparr>updatedAt := 5\<rparr>]"
  by (simp add: pin_note_def put_note_def findOne_def owned_def aNote_def stamp_def noFields_def
      buildUpdateData_def applyUpdate_def archivedNotPinned_def Let_def)

text \<open>
  C6, on \<^verbatim>\<open>PATCH /notes/:noteId/pin\<close>. The claim: for an archived note of the caller
  the pin toggle is a no-op that returns the note unchanged, still not pinned. Archiving
  the pinned note 10 unpins it; the pin toggle that follows answers "Note pinned
  successfully" with the note archived and pinned, and stores it so.
\<close>

theorem pin_after_archive_pins:
  "archive_note 1 1 (Some 10) None [aNote 10 1 True False 0]
     = (Response 200 (MessageNoteBody ''Note archived successfully''
          ((aNote 10 1 False True 0)\<lparr>updatedAt := 1\<rparr>)),
        [(aNote 10 1 False True 0)\<lparr>updatedAt := 1\<rparr>])
   \<and> pin_note 2 1 (Some 10) [(aNote 10 1 False True 0)\<lparr>updatedAt := 1\<rparr>]
     = (Response 200 (MessageNoteBody ''Note pinned successfully''
          ((aNote 10 1 True True 0)\<lparr>updatedAt := 2\<rparr>)),
        [(aNote 10 1 True True 0)\<lparr>updatedAt := 2\<rparr>])"
  by (simp add: archive_note_def pin_note_def findOne_def owned_def aNote_def stamp_def Let_def)

section \<open>Partial update\<close>

lemma buildUpdateData_fields:
  "u_title (buildUpdateData b) = u_title b"
  "u_content (buildUpdateData b) = u_content b"
  "u_color (buildUpdateData b) = u_color b"
  "u_category (buildUpdateData b) = u_category b"
  "u_isFavorite (buildUpdateData b) = u_isFavorite b"
  "u_isArchived (buildUpdateData b) = u_isArchived b"
  "u_isPinned (buildUpdateData b) = (if u_isArchived b = Some True then Some False else u_isPinned b)"
  by (simp_all add: buildUpdateData_def Let_def split: option.split)

lemma put_note_found:
  assumes "findOne (owned i userId) ns = Some n"
  shows "\<exists>pre post. ns = pre @ n # post
           \<and> put_note now userId (Some i) b ns
               = (Response 200 (MessageNoteBody ''Note updated successfully''
                    (applyUpdate now (buildUpdateData b) n)),
                  pre @ applyUpdate now (buildUpdateData b) n # post)"
proof -
  let ?f = "applyUpdate now (buildUpdateData b)"
  from assms have "find (owned i userId) ns = Some n" by (simp add: findOne_def)
  from findOneAndUpdate_match[OF this, of ?f] obtain pre post
    where "ns = pre @ n # post"
      and "findOneAndUpdate (owned i userId) ?f ns = (Some (?f n), pre @ ?f n # post)"
    by blast
  then show ?thesis by (auto simp: put_note_def)
qed

text \<open>A PUT whose body has \<^verbatim>\<open>isArchived\<close> leaves the note not both archived and pinned.\<close>

lemma put_note_isArchived_not_both:
  assumes "findOne (owned i userId) ns = Some n" and "u_isArchived b = Some v"
  shows "\<exists>n' ns'. put_note now userId (Some i) b ns
              = (Response 200 (MessageNoteBody ''Note updated successfully'' n'), ns')
           \<and> archivedNotPinned n'"
proof -
  from put_note_found[OF assms(1), of now b] obtain pre post
    where "put_note now userId (Some i) b ns
        = (Response 200 (MessageNoteBody ''Note updated successfully''
             (applyUpdate now (buildUpdateData b) n)),
           pre @ applyUpdate now (buildUpdateData b) n # post)"
    by blast
  moreover from assms(2) have "archivedNotPinned (applyUpdate now (buildUpdateData b) n)"
    by (cases v) (simp_all add: archivedNotPinned_def applyUpdate_def buildUpdateData_fields)
  ultimately show ?thesis by blast
qed

text \<open>
  C7 as the claim states it: update changes exactly the fields present in the input and
  leaves every omitted field with its prior value. The body \<^verbatim>\<open>{ isArchived: true }\<close>
  omits \<^verbatim>\<open>isPinned\<close>; the pinned note 10 comes back not pinned.
\<close>

theorem put_note_archive_clears_omitted_isPinned:
  "isPinned (aNote 10 1 True False 0) \<and> u_isPinned (noFields\<lparr>u_isArchived := Some True\<rparr>) = None
   \<and> put_note 5 1 (Some 10) (noFields\<lparr>u_isArchived := Some True\<rparr>) [aNote 10 1 True False 0]
       = (Response 200 (MessageNoteBody ''Note updated successfully''
            ((aNote 10 1 False True 0)\<lparr>updatedAt := 5\<rparr>)),
          [(aNote 10 1 False True 0)\<lparr>updatedAt := 5\<rparr>])"
  by (simp add: put_note_def owned_def aNote_def noFields_def
      buildUpdateData_def applyUpdate_def Let_def)

text \<open>
  C7, amended. For a note N of the caller, \<^verbatim>\<open>PUT /notes/:noteId\<close> answers 200 with the
  updated note N' and stores N' in the place of N, every other note as it was. Each
  field of the body that is present is set to the value supplied: title, content and
  category through the schema's \<^verbatim>\<open>trim\<close> (so a supplied empty string is stored),
  colour, isFavorite and isArchived as they are; isPinned is false when
  \<^verbatim>\<open>isArchived: true\<close> is supplied, whatever the body says of \<^verbatim>\<open>isPinned\<close>, and the
  supplied value otherwise. A field that is omitted keeps its value in N, as do the owner,
  the id and createdAt; updatedAt is the time of the update.
\<close>

theorem put_note_sets_supplied_fields:
  assumes "findOne (owned i userId) ns = Some n"
  shows "\<exists>n' pre post.
           put_note now userId (Some i) b ns
             = (Response 200 (MessageNoteBody ''Note updated successfully'' n'), pre @ n' # post)
         \<and> ns = pre @ n # post
         \<and> title n' = (case u_title b of None \<Rightarrow> title n | Some v \<Rightarrow> trim v)
         \<and> content n' = (case u_content b of None \<Rightarrow> content n | Some v \<Rightarrow> trim v)
         \<and> color n' = (case u_color b of None \<Rightarrow> color n | Some v \<Rightarrow> v)
         \<and> category n' = (case u_category b of None \<Rightarrow> category n | Some v \<Rightarrow> trim v)
         \<and> isFavorite n' = (case u_isFavorite b of None \<Rightarrow> isFavorite n | Some v \<Rightarrow> v)
         \<and> isArchived n' = (case u_isArchived b of None \<Rightarrow> isArchived n | Some v \<Rightarrow> v)
         \<and> isPinned n' = (if u_isArchived b = Some True then False
                           else case u_isPinned b of None \<Rightarrow> isPinned n | Some v \<Rightarrow> v)
         \<and> user n' = user n \<and> note_id n' = note_id n \<and> createdAt n' = createdAt n
         \<and> updatedAt n' = now"
proof -
  let ?f = "applyUpdate now (buildUpdateData b)"
  from put_note_found[OF assms, of now b] obtain pre post
    where split: "ns = pre @ n # post"
      and r: "put_note now userId (Some i) b ns
        = (Response 200 (MessageNoteBody ''Note updated successfully'' (?f n)), pre @ ?f n # post)"
    by blast
  have fields:
    "title (?f n) = (case u_title b of None \<Rightarrow> title n | Some v \<Rightarrow> trim v)"
    "content (?f n) = (case u_content b of None \<Rightarrow> content n | Some v \<Rightarrow> trim v)"
    "color (?f n) = (case u_color b of None \<Rightarrow> color n | Some v \<Rightarrow> v)"
    "category (?f n) = (case u_category b of None \<Rightarrow> category n | Some v \<Rightarrow> trim v)"
    "isFavorite (?f n) = (case u_isFavorite b of None \<Rightarrow> isFavorite n | Some v \<Rightarrow> v)"
    "isArchived (?f n) = (case u_isArchived b of None \<Rightarrow> isArchived n | Some v \<Rightarrow> v)"
    "isPinned (?f n) = (if u_isArchived b = Some True then False
                           else case u_isPinned b of None \<Rightarrow> isPinned n | Some v \<Rightarrow> v)"
    "user (?f n) = user n" "note_id (?f n) = note_id n" "createdAt (?f n) = createdAt n"
    "updatedAt (?f n) = now"
    by (simp_all add: applyUpdate_def buildUpdateData_fields)
  from r split fields show ?thesis by blast
qed

text \<open>
  The theorem at the pinned note 10 of user 1 and the body
  \<^verbatim>\<open>{ title: "", isArchived: true }\<close>.
\<close>

theorem put_note_sets_supplied_fields_witness:
  "findOne (owned 10 1) [aNote 10 1 True False 0] = Some (aNote 10 1 True False 0)
   \<and> (\<exists>n' pre post.
           put_note 5 1 (Some 10) (noFields\<lparr>u_title := Some [], u_isArchived := Some True\<rparr>)
               [aNote 10 1 True False 0]
             = (Response 200 (MessageNoteBody ''Note updated successfully'' n'), pre @ n' # post)
         \<and> title n' = [] \<and> isArchived n' \<and> \<not> isPinned n' \<and> user n' = 1 \<and> updatedAt n' = 5)"
proof -
  have h: "findOne (owned 10 1) [aNote 10 1 True False 0] = Some (aNote 10 1 True False 0)"
    by (simp add: findOne_def owned_def aNote_def)
  from put_note_sets_supplied_fields[OF h, of 5 "noFields\<lparr>u_title := Some [], u_isArchived := Some True\<rparr>"]
  obtain n' pre post where
    "put_note 5 1 (Some 10) (noFields\<lparr>u_title := Some [], u_isArchived := Some True\<rparr>)
               [aNote 10 1 True False 0]
             = (Response 200 (MessageNoteBody ''Note updated successfully'' n'), pre @ n' # post)"
    "title n' = []" "isArchived n'" "\<not> isPinned n'" "user n' = 1" "updatedAt n' = 5"
    by (auto simp: noFields_def trim_def aNote_def)
  with h show ?thesis by blast
qed

text \<open>
  The merge of the first server keeps the prior value for a supplied empty string: the
  title stays.
\<close>

lemma mergeEmbedded_keeps_title_on_empty_string:
  "mergeEmbedded (Some []) None None n = n"
  by (simp add: mergeEmbedded_def orPrior_def truthy_def)

section \<open>The order of the list\<close>

lemma pinned_first:
  "sorted (map sortKey ns) \<Longrightarrow> filter isPinned ns @ filter (\<lambda>n. \<not> isPinned n) ns = ns"
proof (induction ns)
  case Nil
  then show ?case by simp
next
  case (Cons n ns)
  then have tail: "filter isPinned ns @ filter (\<lambda>n. \<not> isPinned n) ns = ns" by simp
  show ?case
  proof (cases "isPinned n")
    case True
    with tail show ?thesis by simp
  next
    case False
    have "\<not> isPinned m" if "m \<in> set ns" for m
    proof -
      from Cons.prems that have "sortKey n \<le> sortKey m" by auto
      with False show ?thesis by (auto simp: sortKey_def less_eq_prod_def)
    qed
    then have "filter isPinned ns = []" and "filter (\<lambda>n. \<not> isPinned n) ns = ns"
      by (simp_all add: filter_empty_conv filter_id_conv)
    with False show ?thesis by simp
  qed
qed

lemma group_recent_first:
  assumes "sorted (map sortKey ns)" and "\<And>n. n \<in> set ns \<Longrightarrow> P n \<Longrightarrow> isPinned n = p"
  shows "sorted (rev (map createdAt (filter P ns)))"
proof -
  have "sorted (map sortKey (filter P ns))" using assms(1) by (rule sorted_filter)
  then have "sorted_wrt (\<lambda>a b. sortKey a \<le> sortKey b) (filter P ns)"
    by (simp add: sorted_wrt_map)
  then have "sorted_wrt (\<lambda>a b. createdAt b \<le> createdAt a) (filter P ns)"
  proof (rule sorted_wrt_mono_rel[rotated])
    fix a b assume "a \<in> set (filter P ns)" "b \<in> set (filter P ns)" "sortKey a \<le> sortKey b"
    moreover from this assms(2) have "isPinned a = isPinned b" by auto
    ultimately show "createdAt b \<le> createdAt a" by (auto simp: sortKey_def less_eq_prod_def)
  qed
  then show ?thesis by (simp add: sorted_wrt_rev sorted_wrt_map rev_map[symmetric])
qed

text \<open>
  C8. For every owner and every filter, \<^verbatim>\<open>GET /notes\<close> answers with a sequence that is
  its pinned notes followed by its unpinned notes, and in each of the two groups the
  creation times descend (the most recent first). The one query that returns no sequence
  is a \<^verbatim>\<open>search\<close> that is not a regular expression, which answers 500.
\<close>

theorem get_notes_pinned_first_then_recent:
  "(case searchCondition regex_i (q_search rq) of
      None \<Rightarrow> get_notes regex_i userId rq notes = Response 500 (ErrorBody ''Failed to get notes'')
    | Some searched \<Rightarrow>
        (\<exists>ns. get_notes regex_i userId rq notes = Response 200 (NotesBody ns)
           \<and> filter isPinned ns @ filter (\<lambda>n. \<not> isPinned n) ns = ns
           \<and> sorted (rev (map createdAt (filter isPinned ns)))
           \<and> sorted (rev (map createdAt (filter (\<lambda>n. \<not> isPinned n) ns)))))"
proof (cases "searchCondition regex_i (q_search rq)")
  case None
  then show ?thesis by (simp add: get_notes_def)
next
  case (Some searched)
  let ?ns = "sort_key sortKey (filter (notesQuery searched userId rq) notes)"
  have s: "sorted (map sortKey ?ns)" by (rule sorted_sort_key)
  have "filter isPinned ?ns @ filter (\<lambda>n. \<not> isPinned n) ?ns = ?ns"
    using s by (rule pinned_first)
  moreover have "sorted (rev (map createdAt (filter isPinned ?ns)))"
    using s by (rule group_recent_first[where p = True]) simp
  moreover have "sorted (rev (map createdAt (filter (\<lambda>n. \<not> isPinned n) ?ns)))"
    using s by (rule group_recent_first[where p = False]) simp
  ultimately show ?thesis using Some by (simp add: get_notes_def)
qed

text \<open>
  The scenario of the specification: T1 (note 10) is created before T2 (note 11) and
  then pinned; the list is T1, T2.
\<close>

lemma get_notes_scenario_T1_T2:
  "get_notes regex_i 1 \<lparr> q_search = None, q_category = None, q_isArchived = None \<rparr>
     [aNote 10 1 True False 100, aNote 11 1 False False 200]
   = Response 200 (NotesBody [aNote 10 1 True False 100, aNote 11 1 False False 200])"
  by (simp add: get_notes_def searchCondition_def notesQuery_def archivedFlag_def aNote_def
      sortKey_def)

text \<open>
  The session server with two note routes sorts by \<^verbatim>\<open>createdAt\<close> alone. It has no
  route that pins: on a collection without pinned notes its list has the same order; on
  the collection of the scenario it has not.
\<close>

lemma get_notes_createdAt_only_when_unpinned:
  assumes "list_all (\<lambda>n. \<not> isPinned n) notes"
  shows "\<exists>ns. get_notes_createdAt_only userId notes = Response 200 (NotesBody ns)
      \<and> filter isPinned ns @ filter (\<lambda>n. \<not> isPinned n) ns = ns
      \<and> sorted (rev (map createdAt (filter isPinned ns)))
      \<and> sorted (rev (map createdAt (filter (\<lambda>n. \<not> isPinned n) ns)))"
proof -
  let ?ns = "sort_key (\<lambda>n. - createdAt n) (filter (\<lambda>n. user n = userId) notes)"
  from assms have none: "\<forall>n \<in> set ?ns. \<not> isPinned n" by (auto simp: list_all_iff)
  then have f: "filter isPinned ?ns = []" "filter (\<lambda>n. \<not> isPinned n) ?ns = ?ns"
    by (simp_all add: filter_empty_conv filter_id_conv)
  have "sorted (map (\<lambda>n. - createdAt n) ?ns)" by (rule sorted_sort_key)
  then have "sorted_wrt (\<lambda>a b. createdAt b \<le> createdAt a) ?ns"
    by (simp add: sorted_wrt_map)
  then have "sorted (rev (map createdAt ?ns))"
    by (simp add: sorted_wrt_rev sorted_wrt_map rev_map[symmetric])
  with f show ?thesis by (simp add: get_notes_createdAt_only_def)
qed

lemma get_notes_createdAt_only_scenario:
  "get_notes_createdAt_only 1 [aNote 10 1 True False 100, aNote 11 1 False False 200]
   = Response 200 (NotesBody [aNote 11 1 False False 200, aNote 10 1 True False 100])"
  by (simp add: get_notes_createdAt_only_def aNote_def)

section \<open>The isArchived flag of the list\<close>

lemma archivedFlag_eq: "archivedFlag rq = (q_isArchived rq = Some ''true'')"
  by (cases "q_isArchived rq") (auto simp: archivedFlag_def)

text \<open>
  C10 as the claim states it: for every call the list holds exactly the caller's notes
  whose \<^verbatim>\<open>isArchived\<close> equals the flag. User 1 has two notes that are not archived,
  note 10 in the category General and note 11 in the category Work; the call with
  \<^verbatim>\<open>category=Work\<close> and no \<^verbatim>\<open>isArchived\<close> lists note 11 alone.
\<close>

theorem get_notes_category_call_omits_unarchived_note:
  "get_notes (\<lambda>p. None) 1 \<lparr> q_search = None, q_category = Some ''Work'', q_isArchived = None \<rparr>
     [aNote 10 1 False False 100, (aNote 11 1 False False 200)\<lparr>category := ''Work''\<rparr>]
     = Response 200 (NotesBody [(aNote 11 1 False False 200)\<lparr>category := ''Work''\<rparr>])
   \<and> filter (\<lambda>n. user n = 1 \<and> \<not> isArchived n)
        [aNote 10 1 False False 100, (aNote 11 1 False False 200)\<lparr>category := ''Work''\<rparr>]
     = [aNote 10 1 False False 100, (aNote 11 1 False False 200)\<lparr>category := ''Work''\<rparr>]"
  by (simp add: get_notes_def searchCondition_def notesQuery_def archivedFlag_def truthy_def
      trim_def isWhiteSpace_def aNote_def)

text \<open>
  C10, amended. The flag is true for the query string \<^verbatim>\<open>isArchived=true\<close> and false
  otherwise, also when the parameter is absent. For every call, the list holds exactly
  (each once) the caller's notes whose \<^verbatim>\<open>isArchived\<close> equals the flag and that also
  pass the \<^verbatim>\<open>search\<close> and the \<^verbatim>\<open>category\<close> of the call: a note passes a non-empty
  \<^verbatim>\<open>search\<close> when its title or its content matches it, and a non-empty
  \<^verbatim>\<open>category\<close> when its category is the trimmed value; an absent or empty parameter
  lets every note pass. So every listed note has \<^verbatim>\<open>isArchived\<close> equal to the flag, never
  both kinds together, and without \<^verbatim>\<open>search\<close> and \<^verbatim>\<open>category\<close> the default list
  holds exactly the caller's notes that are not archived and the list for
  \<^verbatim>\<open>isArchived=true\<close> exactly the archived ones. The one call with no list is a
  \<^verbatim>\<open>search\<close> that is not a regular expression, which answers 500.
\<close>

theorem get_notes_isArchived_partitions:
  "(case searchCondition regex_i (q_search rq) of
      None \<Rightarrow> get_notes regex_i userId rq notes = Response 500 (ErrorBody ''Failed to get notes'')
    | Some searched \<Rightarrow>
        (\<exists>ns. get_notes regex_i userId rq notes = Response 200 (NotesBody ns)
           \<and> mset ns = mset (filter (notesQuery searched userId rq) notes)
           \<and> mset ns = mset (filter
                 (\<lambda>n. user n = userId \<and> isArchived n = (q_isArchived rq = Some ''true'')
                    \<and> searched n
                    \<and> (case q_category rq of
                          None \<Rightarrow> True
                        | Some cat \<Rightarrow> cat = [] \<or> category n = trim cat)) notes)
           \<and> list_all (\<lambda>n. user n = userId \<and> isArchived n = (q_isArchived rq = Some ''true'')) ns))
   \<and> searchCondition regex_i None = Some (\<lambda>n. True)
   \<and> searchCondition regex_i (Some []) = Some (\<lambda>n. True)
   \<and> (case regex_i (p # ps) of
         None \<Rightarrow> searchCondition regex_i (Some (p # ps)) = None
       | Some matches \<Rightarrow>
           searchCondition regex_i (Some (p # ps))
             = Some (\<lambda>n. matches (title n) \<or> matches (content n)))
   \<and> (\<exists>ns. get_notes regex_i userId \<lparr> q_search = None, q_category = None, q_isArchived = flag \<rparr> notes
              = Response 200 (NotesBody ns)
       \<and> mset ns = mset (filter (\<lambda>n. user n = userId \<and> isArchived n = (flag = Some ''true'')) notes))
   \<and> (\<exists>ns. get_notes regex_i userId \<lparr> q_search = None, q_category = None, q_isArchived = None \<rparr> notes
              = Response 200 (NotesBody ns)
       \<and> mset ns = mset (filter (\<lambda>n. user n = userId \<and> \<not> isArchived n) notes))
   \<and> (\<exists>ns. get_notes regex_i userId
               \<lparr> q_search = None, q_category = None, q_isArchived = Some ''true'' \<rparr> notes
              = Response 200 (NotesBody ns)
       \<and> mset ns = mset (filter (\<lambda>n. user n = userId \<and> isArchived n) notes))"
proof -
  have explicit: "notesQuery searched userId rq
      = (\<lambda>n. user n = userId \<and> isArchived n = (q_isArchived rq = Some ''true'')
            \<and> searched n
            \<and> (case q_category rq of
                  None \<Rightarrow> True
                | Some cat \<Rightarrow> cat = [] \<or> category n = trim cat))" for searched
    by (auto simp: notesQuery_def archivedFlag_eq truthy_def fun_eq_iff split: option.splits)
  have all: "(case searchCondition regex_i (q_search rq) of
      None \<Rightarrow> get_notes regex_i userId rq notes = Response 500 (ErrorBody ''Failed to get notes'')
    | Some searched \<Rightarrow>
        (\<exists>ns. get_notes regex_i userId rq notes = Response 200 (NotesBody ns)
           \<and> mset ns = mset (filter (notesQuery searched userId rq) notes)
           \<and> mset ns = mset (filter
                 (\<lambda>n. user n = userId \<and> isArchived n = (q_isArchived rq = Some ''true'')
                    \<and> searched n
                    \<and> (case q_category rq of
                          None \<Rightarrow> True
                        | Some cat \<Rightarrow> cat = [] \<or> category n = trim cat)) notes)
           \<and> list_all (\<lambda>n. user n = userId \<and> isArchived n = (q_isArchived rq = Some ''true'')) ns))"
  proof (cases "searchCondition regex_i (q_search rq)")
    case None
    then show ?thesis by (simp add: get_notes_def)
  next
    case (Some searched)
    let ?ns = "sort_key sortKey (filter (notesQuery searched userId rq) notes)"
    have r: "get_notes regex_i userId rq notes = Response 200 (NotesBody ?ns)"
      using Some by (simp add: get_notes_def)
    have m: "mset ?ns = mset (filter (notesQuery searched userId rq) notes)" by simp
    have m': "mset ?ns = mset (filter
                 (\<lambda>n. user n = userId \<and> isArchived n = (q_isArchived rq = Some ''true'')
                    \<and> searched n
                    \<and> (case q_category rq of
                          None \<Rightarrow> True
                        | Some cat \<Rightarrow> cat = [] \<or> category n = trim cat)) notes)"
      using m by (simp only: explicit)
    have l: "list_all (\<lambda>n. user n = userId \<and> isArchived n = (q_isArchived rq = Some ''true'')) ?ns"
      by (simp add: list_all_iff notesQuery_def archivedFlag_eq)
    from r m m' l Some show ?thesis by auto
  qed
  have sc: "searchCondition regex_i None = Some (\<lambda>n. True)"
    "searchCondition regex_i (Some []) = Some (\<lambda>n. True)"
    "(case regex_i (p # ps) of
         None \<Rightarrow> searchCondition regex_i (Some (p # ps)) = None
       | Some matches \<Rightarrow>
           searchCondition regex_i (Some (p # ps))
             = Some (\<lambda>n. matches (title n) \<or> matches (content n)))"
    by (simp_all add: searchCondition_def truthy_def split: option.split)
  have plain: "get_notes regex_i userId \<lparr> q_search = None, q_category = None, q_isArchived = f \<rparr> notes
      = Response 200 (NotesBody (sort_key sortKey
          (filter (\<lambda>n. user n = userId \<and> isArchived n = (f = Some ''true'')) notes)))" for f
    by (simp add: get_notes_def searchCondition_def notesQuery_def [abs_def] archivedFlag_eq)
  have p1: "\<exists>ns. get_notes regex_i userId \<lparr> q_search = None, q_category = None, q_isArchived = flag \<rparr> notes
              = Response 200 (NotesBody ns)
       \<and> mset ns = mset (filter (\<lambda>n. user n = userId \<and> isArchived n = (flag = Some ''true'')) notes)"
    using plain[of flag] by simp
  have p2: "\<exists>ns. get_notes regex_i userId \<lparr> q_search = None, q_category = None, q_isArchived = None \<rparr> notes
              = Response 200 (NotesBody ns)
       \<and> mset ns = mset (filter (\<lambda>n. user n = userId \<and> \<not> isArchived n) notes)"
    using plain[of None] by simp
  have p3: "\<exists>ns. get_notes regex_i userId
               \<lparr> q_search = None, q_category = None, q_isArchived = Some ''true'' \<rparr> notes
              = Response 200 (NotesBody ns)
       \<and> mset ns = mset (filter (\<lambda>n. user n = userId \<and> isArchived n) notes)"
    using plain[of "Some ''true''"] by simp
  from all sc p1 p2 p3 show ?thesis by (intro conjI)
qed

section \<open>Tokens: expiry and logout\<close>

text \<open>
  C2 as the claim states it: after logout the token is refused at every later time.
  The token of user 7 is issued at second 0; the logout answers and changes nothing
  (here the server holds no note and no user); at second 100 \<^verbatim>\<open>requireAuth\<close> still
  lets the token through as user 7.
\<close>

theorem token_survives_logout:
  "post_auth_logout ([] :: User list, [] :: Note list)
     = (Response 200 (MessageBody ''Logged out successfully''), ([], []))
   \<and> requireAuth ''k'' 100 (Bearer (generateToken ''k'' 0 7)) = Next 7"
  by (simp add: post_auth_logout_def requireAuth_def generateToken_def jwt_sign_7d_def
      jwt_verify_def)

text \<open>
  In the session servers logout removes the session, and \<^verbatim>\<open>requireAuth\<close> then
  refuses its id.
\<close>

lemma session_logout_revokes:
  "requireAuth_session (snd (post_auth_logout_session store sid)) sid
     = Rejected (Response 401 (ErrorBody ''Please log in''))"
  by (simp add: requireAuth_session_def post_auth_logout_session_def)

text \<open>
  C2, amended. A token issued at \<open>issuedAt\<close> expires at \<open>issuedAt\<close> plus seven days
  (604800 seconds); \<^verbatim>\<open>requireAuth\<close> lets it through, as its user, at every time
  strictly before the expiry and answers 401 "Invalid or expired token" at every time at
  or after it. Logout of the JWT server changes nothing on the server:
  \<^verbatim>\<open>requireAuth\<close> reads the token, the secret and the clock only, so after logout the
  token is let through as before, until it expires.
\<close>

theorem requireAuth_accepts_until_expiry:
  "jwt_exp (generateToken JWT_SECRET issuedAt userId) = issuedAt + 604800
   \<and> requireAuth JWT_SECRET now (Bearer (generateToken JWT_SECRET issuedAt userId))
       = (if now < issuedAt + 604800 then Next userId
          else Rejected (Response 401 (ErrorBody ''Invalid or expired token'')))
   \<and> snd (post_auth_logout db) = db"
  by (simp add: post_auth_logout_def requireAuth_def generateToken_def jwt_sign_7d_def
      jwt_verify_def)

end
